theory Spec2Isabelle
  imports Complex_Main
begin

section \<open>JavaScript values\<close>

text \<open>
  The structure classes (User, GuildMember, Message, Guild, Channel) are required by
  ClientDataResolver.js from ../structures and are not among the sources. Each is a record
  of the properties the resolver reads, typed as the resolver's JSDoc types them.
  A Collection (a Map keyed by ID strings) is a partial function on strings.
\<close>

record User =
  user_id :: string

record Channel =
  channel_id :: string

record GuildMember =
  member_id :: string
  member_user :: User

record Message =
  author :: User
  message_channel :: Channel

record Guild =
  guild_id :: string
  owner :: User
  ownerID :: string
  members :: "string \<rightharpoonup> GuildMember"
  guild_channels :: "string \<rightharpoonup> Channel"

text \<open>
  A value as the code can receive it: the primitives, an instance of one of the five
  structure classes, or any other object. A number is a finite one (\<open>JNum\<close>), NaN,
  Infinity or -Infinity.
\<close>

datatype val =
    JUndefined
  | JNull
  | JBool bool
  | JNum rat
  | JNaN
  | JInfinity
  | JNegInfinity
  | JStr string
  | JUser User
  | JMember GuildMember
  | JMessage Message
  | JGuild Guild
  | JChannel Channel
  | JObject

text \<open>ToBoolean: what \<open>if (v)\<close>, \<open>!v\<close> and \<open>v || w\<close> test.\<close>

fun truthy :: "val \<Rightarrow> bool" where
  "truthy JUndefined = False"
| "truthy JNull = False"
| "truthy (JBool b) = b"
| "truthy (JNum n) = (n \<noteq> 0)"
| "truthy JNaN = False"
| "truthy (JStr s) = (s \<noteq> [])"
| "truthy _ = True"

text \<open>The strict comparisons \<open>v === false\<close> and \<open>v === undefined\<close>.\<close>

fun is_false :: "val \<Rightarrow> bool" where
  "is_false (JBool b) = (\<not> b)"
| "is_false _ = False"

fun is_undefined :: "val \<Rightarrow> bool" where
  "is_undefined JUndefined = True"
| "is_undefined _ = False"

text \<open>\<open>typeof v === 'number'\<close>, and \<open>v < 1\<close> for a number \<open>v\<close>: every comparison
  with NaN is false.\<close>

fun is_number :: "val \<Rightarrow> bool" where
  "is_number (JNum n) = True"
| "is_number JNaN = True"
| "is_number JInfinity = True"
| "is_number JNegInfinity = True"
| "is_number _ = False"

fun less_than_one :: "val \<Rightarrow> bool" where
  "less_than_one (JNum n) = (n < 1)"
| "less_than_one JNegInfinity = True"
| "less_than_one _ = False"

section \<open>BasePlayer: objects, effects and state\<close>

text \<open>
  Object identities. \<open>Ext\<close> objects are made by the caller (the streams it passes
  in), \<open>Obj\<close> objects are made by the player's own \<open>new\<close> expressions.
\<close>

datatype ref = Ext nat | Obj nat

text \<open>The options object of a play call; an omitted property reads as \<open>JUndefined\<close>.\<close>

record options =
  seek :: val
  volume :: val
  passes :: val

text \<open>The \<open>streams\<close> object handed down the play functions and to the dispatcher.\<close>

record streams =
  streams_ffmpeg :: "ref option"
  streams_input :: "ref option"
  streams_opus :: "ref option"
  streams_volume :: "ref option"

definition empty_streams :: streams where
  "empty_streams =
     \<lparr>streams_ffmpeg = None, streams_input = None, streams_opus = None, streams_volume = None\<rparr>"

text \<open>
  An element of an FFmpeg argument array: a string written in the source (or the path
  given by the caller), or \<open>String(v)\<close> of an option value.
\<close>

datatype arg = Lit string | StringOf val

text \<open>
  The constructor calls of the player, with their arguments:
  \<open>new prism.FFmpeg({ args })\<close>,
  \<open>new prism.opus.Encoder({ channels, rate, frameSize })\<close>,
  \<open>new prism.opus.Decoder({ channels, rate, frameSize })\<close>,
  \<open>new prism.VolumeTransformer16LE({ volume })\<close>,
  \<open>new StreamDispatcher(this, options, streams, broadcast)\<close> and, in DefaultPlayer,
  \<open>fs.createReadStream(file)\<close>.
\<close>

datatype ctor =
    FFmpeg "arg list"
  | OpusEncoder nat nat nat
  | OpusDecoder nat nat nat
  | VolumeTransformer16LE val
  | StreamDispatcher "options option" streams "ref option"
  | ReadStream string

fun is_dispatcher :: "ctor \<Rightarrow> bool" where
  "is_dispatcher (StreamDispatcher _ _ _) = True"
| "is_dispatcher _ = False"

text \<open>
  The effects of the player on other objects, in program order: an object constructed,
  \<open>a.pipe(b)\<close>, and \<open>x.destroy()\<close>.
\<close>

datatype event =
    New ref ctor
  | Pipe ref ref
  | Destroy ref

datatype error =
    TypeError
  | Thrown ctor
  | NOT_A_PERMISSION

record streamingData =
  channels :: nat
  sequence :: nat
  timestamp :: nat

text \<open>
  The player's fields (\<open>dispatcher\<close>, \<open>streamingData\<close>), the module-level array
  \<open>FFMPEG_ARGUMENTS\<close> (which \<open>playUnknown\<close> can alias and push to), the allocator
  of object identities, and the effects so far.
\<close>

record state =
  dispatcher :: "ref option"
  streamingData :: streamingData
  ffmpeg_arguments :: "arg list"
  heap_next :: nat
  trace :: "event list"

definition FFMPEG_ARGUMENTS :: "arg list" where
  "FFMPEG_ARGUMENTS =
     [Lit ''-analyzeduration'', Lit ''0'',
      Lit ''-loglevel'', Lit ''0'',
      Lit ''-f'', Lit ''s16le'',
      Lit ''-ar'', Lit ''48000'',
      Lit ''-ac'', Lit ''2'']"

text \<open>The constructor of BasePlayer, in a freshly loaded module.\<close>

definition initial :: state where
  "initial =
     \<lparr>dispatcher = None,
      streamingData = \<lparr>channels = 2, sequence = 0, timestamp = 0\<rparr>,
      ffmpeg_arguments = FFMPEG_ARGUMENTS,
      heap_next = 0,
      trace = []\<rparr>"

text \<open>
  A \<open>new\<close> expression. The constructors belong to prism-media, fs and StreamDispatcher,
  none of them among the sources: whether one throws is a parameter \<open>thr\<close> of the model,
  a function of the number of objects constructed so far and of the constructor call.
  A constructor that throws leaves no object behind.
\<close>

definition alloc :: "ctor \<Rightarrow> state \<Rightarrow> state" where
  "alloc c st =
     st\<lparr>heap_next := Suc (heap_next st),
        trace := trace st @ [New (Obj (heap_next st)) c]\<rparr>"

definition new ::
  "(nat \<Rightarrow> ctor \<Rightarrow> bool) \<Rightarrow> ctor \<Rightarrow> state \<Rightarrow> (error + ref) \<times> state" where
  "new thr c st =
     (if thr (heap_next st) c then (Inl (Thrown c), st)
      else (Inr (Obj (heap_next st)), alloc c st))"

definition pipe :: "ref \<Rightarrow> ref \<Rightarrow> state \<Rightarrow> state" where
  "pipe a b st = st\<lparr>trace := trace st @ [Pipe a b]\<rparr>"

text \<open>
  Modelled from the spec: \<open>StreamDispatcher.destroy()\<close>, whose class is required from
  ../dispatcher/StreamDispatcher and is not among the sources. By section 4.3 of the spec
  destroy() returns normally from any state, also on a dispatcher already destroyed; the
  model records the call.
\<close>

definition dispatcher_destroy :: "ref \<Rightarrow> state \<Rightarrow> state" where
  "dispatcher_destroy d st = st\<lparr>trace := trace st @ [Destroy d]\<rparr>"

section \<open>BasePlayer\<close>

definition destroyDispatcher :: "state \<Rightarrow> state" where
  "destroyDispatcher st =
     (case dispatcher st of
        None \<Rightarrow> st
      | Some d \<Rightarrow> (dispatcher_destroy d st)\<lparr>dispatcher := None\<rparr>)"

definition destroy :: "state \<Rightarrow> state" where
  "destroy st = destroyDispatcher st"

definition createDispatcher ::
  "(nat \<Rightarrow> ctor \<Rightarrow> bool) \<Rightarrow> options option \<Rightarrow> streams \<Rightarrow> ref option \<Rightarrow> state \<Rightarrow> (error + ref) \<times> state" where
  "createDispatcher thr opts strs broadcast st =
     (case new thr (StreamDispatcher opts strs broadcast) (destroyDispatcher st) of
        (Inl e, st1) \<Rightarrow> (Inl e, st1)
      | (Inr d, st1) \<Rightarrow> (Inr d, st1\<lparr>dispatcher := Some d\<rparr>))"

text \<open>\<open>options ? options.volume : 1\<close>\<close>

definition volume_or_1 :: "options option \<Rightarrow> val" where
  "volume_or_1 opts = (case opts of None \<Rightarrow> JNum 1 | Some os \<Rightarrow> volume os)"

text \<open>
  \<open>playOpusStream(stream, options, streams = {})\<close>. Reading \<open>options.volume\<close> of an
  undefined \<open>options\<close> is a TypeError. In the branch, the two \<open>pipe\<close> calls of the
  chain run before the encoder, the argument of the third, is constructed.
\<close>

definition playOpusStream ::
  "(nat \<Rightarrow> ctor \<Rightarrow> bool) \<Rightarrow> ref \<Rightarrow> options option \<Rightarrow> streams \<Rightarrow> state \<Rightarrow> (error + ref) \<times> state" where
  "playOpusStream thr stream opts strs st =
     (let st1 = destroyDispatcher st;
          strs1 = strs\<lparr>streams_opus := Some stream\<rparr>
      in case opts of
           None \<Rightarrow> (Inl TypeError, st1)
         | Some os \<Rightarrow>
             (case (if \<not> is_false (volume os) \<and> streams_input strs1 = None then
                      (case new thr (OpusDecoder 2 48000 960) st1 of
                         (Inl e, st2) \<Rightarrow> (Inl e, st2)
                       | (Inr decoder, st2) \<Rightarrow>
                      (case new thr (VolumeTransformer16LE (volume_or_1 opts)) st2 of
                         (Inl e, st3) \<Rightarrow> (Inl e, st3)
                       | (Inr vol, st3) \<Rightarrow>
                      (case new thr (OpusEncoder 2 48000 960)
                              (pipe decoder vol (pipe stream decoder st3)) of
                         (Inl e, st4) \<Rightarrow> (Inl e, st4)
                       | (Inr enc, st4) \<Rightarrow>
                           (Inr (strs1\<lparr>streams_input := Some stream,
                                       streams_volume := Some vol,
                                       streams_opus := Some enc\<rparr>),
                            pipe vol enc st4))))
                    else (Inr strs1, st1)) of
                (Inl e, st5) \<Rightarrow> (Inl e, st5)
              | (Inr strs2, st5) \<Rightarrow>
                  (case createDispatcher thr opts strs2 None st5 of
                     (Inl e, st6) \<Rightarrow> (Inl e, st6)
                   | (Inr d, st6) \<Rightarrow>
                       (case streams_opus strs2 of
                          None \<Rightarrow> (Inl TypeError, st6)
                        | Some out \<Rightarrow> (Inr d, pipe out d st6)))))"

text \<open>\<open>playPCMStream(stream, options, streams = {})\<close>\<close>

definition playPCMStream ::
  "(nat \<Rightarrow> ctor \<Rightarrow> bool) \<Rightarrow> ref \<Rightarrow> options option \<Rightarrow> streams \<Rightarrow> state \<Rightarrow> (error + ref) \<times> state" where
  "playPCMStream thr stream opts strs st =
     (case new thr (OpusEncoder 2 48000 960) (destroyDispatcher st) of
        (Inl e, st1) \<Rightarrow> (Inl e, st1)
      | (Inr opus, st1) \<Rightarrow>
          (let strs1 = strs\<lparr>streams_opus := Some opus\<rparr> in
           if (case opts of None \<Rightarrow> False | Some os \<Rightarrow> is_false (volume os)) then
             playOpusStream thr opus opts strs1 (pipe stream opus st1)
           else
             (case new thr (VolumeTransformer16LE (volume_or_1 opts)) st1 of
                (Inl e, st2) \<Rightarrow> (Inl e, st2)
              | (Inr vol, st2) \<Rightarrow>
                  playOpusStream thr opus opts (strs1\<lparr>streams_volume := Some vol\<rparr>)
                    (pipe vol opus (pipe stream vol st2)))))"

text \<open>
  The first argument of \<open>playUnknown\<close>: a Readable stream, or anything else, which the
  code takes for a path.
\<close>

datatype input = Readable ref | Path string

fun isStream :: "input \<Rightarrow> bool" where
  "isStream (Readable _) = True"
| "isStream (Path _) = False"

text \<open>
  \<open>playUnknown(input, options)\<close>. For a stream, \<open>args\<close> is the module's array
  \<open>FFMPEG_ARGUMENTS\<close> itself, so the \<open>push\<close> of a seek offset changes that array for
  every later call; for a path it is a fresh array.
\<close>

definition playUnknown ::
  "(nat \<Rightarrow> ctor \<Rightarrow> bool) \<Rightarrow> input \<Rightarrow> options option \<Rightarrow> state \<Rightarrow> (error + ref) \<times> state" where
  "playUnknown thr inp opts st =
     (let st1 = destroyDispatcher st;
          args = (case inp of
                    Readable _ \<Rightarrow> ffmpeg_arguments st1
                  | Path p \<Rightarrow> [Lit ''-i'', Lit p] @ ffmpeg_arguments st1)
      in case opts of
           None \<Rightarrow> (Inl TypeError, st1)
         | Some os \<Rightarrow>
             (let args1 = (if truthy (seek os) then args @ [Lit ''-ss'', StringOf (seek os)]
                           else args);
                  st2 = (if isStream inp then st1\<lparr>ffmpeg_arguments := args1\<rparr> else st1)
              in case new thr (FFmpeg args1) st2 of
                   (Inl e, st3) \<Rightarrow> (Inl e, st3)
                 | (Inr ffmpeg, st3) \<Rightarrow>
                     (let strs = empty_streams\<lparr>streams_ffmpeg := Some ffmpeg\<rparr> in
                      case inp of
                        Readable r \<Rightarrow>
                          playPCMStream thr ffmpeg opts (strs\<lparr>streams_input := Some r\<rparr>)
                            (pipe r ffmpeg st3)
                      | Path _ \<Rightarrow> playPCMStream thr ffmpeg opts strs st3)))"

section \<open>DefaultPlayer\<close>

text \<open>
  \<open>playStream\<close> calls \<open>this._shutdown()\<close> and \<open>this.convertStream(stream, options)\<close>.
  Neither DefaultPlayer nor BasePlayer defines these two methods, so they are parameters
  of the model: \<open>None\<close> for a method that is not there (calling it is a TypeError),
  \<open>Some f\<close> for an implementation supplied elsewhere.
\<close>

record methods =
  shutdown :: "(state \<Rightarrow> (error + unit) \<times> state) option"
  convertStream :: "(ref \<Rightarrow> options \<Rightarrow> state \<Rightarrow> (error + ref) \<times> state) option"

text \<open>\<open>x === undefined ? d : x\<close>\<close>

definition default_to :: "val \<Rightarrow> val \<Rightarrow> val" where
  "default_to d x = (if is_undefined x then d else x)"

text \<open>The options object \<open>playStream\<close> builds from its argument \<open>obj\<close>.\<close>

definition playStream_options :: "options \<Rightarrow> options" where
  "playStream_options ob =
     \<lparr>seek = default_to (JNum 0) (seek ob),
      volume = default_to (JNum 1) (volume ob),
      passes = default_to (JNum 1) (passes ob)\<rparr>"

definition playStream ::
  "(nat \<Rightarrow> ctor \<Rightarrow> bool) \<Rightarrow> methods \<Rightarrow> ref \<Rightarrow> options option \<Rightarrow> state \<Rightarrow> (error + ref) \<times> state" where
  "playStream thr ms stream obj st =
     (case obj of
        None \<Rightarrow> (Inl TypeError, st)
      | Some ob \<Rightarrow>
          (case shutdown ms of
             None \<Rightarrow> (Inl TypeError, st)
           | Some sh \<Rightarrow>
               (case sh st of
                  (Inl e, st1) \<Rightarrow> (Inl e, st1)
                | (Inr _, st1) \<Rightarrow>
                    (let opts = playStream_options ob in
                     case convertStream ms of
                       None \<Rightarrow> (Inl TypeError, st1)
                     | Some cv \<Rightarrow>
                         (case cv stream opts st1 of
                            (Inl e, st2) \<Rightarrow> (Inl e, st2)
                          | (Inr pcmStream, st2) \<Rightarrow>
                              playPCMStream thr pcmStream (Some opts) empty_streams st2)))))"

text \<open>
  The options object \<open>playFile\<close> builds from its argument \<open>obj\<close>: it has the
  properties \<open>seek\<close> and \<open>volume\<close> only.
\<close>

definition playFile_options :: "options \<Rightarrow> options" where
  "playFile_options ob =
     \<lparr>seek = default_to (JNum 0) (seek ob),
      volume = default_to (JNum 1) (volume ob),
      passes = JUndefined\<rparr>"

definition playFile ::
  "(nat \<Rightarrow> ctor \<Rightarrow> bool) \<Rightarrow> methods \<Rightarrow> string \<Rightarrow> options option \<Rightarrow> state \<Rightarrow> (error + ref) \<times> state" where
  "playFile thr ms path obj st =
     (case obj of
        None \<Rightarrow> (Inl TypeError, st)
      | Some ob \<Rightarrow>
          (case new thr (ReadStream path) st of
             (Inl e, st1) \<Rightarrow> (Inl e, st1)
           | (Inr r, st1) \<Rightarrow> playStream thr ms r (Some (playFile_options ob)) st1))"

section \<open>ClientDataResolver\<close>

record client =
  users :: "string \<rightharpoonup> User"
  guilds :: "string \<rightharpoonup> Guild"
  client_channels :: "string \<rightharpoonup> Channel"

text \<open>\<open>collection.get(key)\<close>: the keys of a Collection are ID strings.\<close>

definition collection_get :: "(string \<rightharpoonup> 'a) \<Rightarrow> val \<Rightarrow> 'a option" where
  "collection_get m k = (case k of JStr s \<Rightarrow> m s | _ \<Rightarrow> None)"

fun resolveUser :: "client \<Rightarrow> val \<Rightarrow> val" where
  "resolveUser c (JUser u) = JUser u"
| "resolveUser c (JStr s) =
     (case collection_get (users c) (JStr s) of Some u \<Rightarrow> JUser u | None \<Rightarrow> JNull)"
| "resolveUser c (JMember m) = JUser (member_user m)"
| "resolveUser c (JMessage m) = JUser (author m)"
| "resolveUser c (JGuild g) = JUser (owner g)"
| "resolveUser c _ = JNull"

fun resolveUserID :: "val \<Rightarrow> val" where
  "resolveUserID (JUser u) = JStr (user_id u)"
| "resolveUserID (JMember m) = JStr (member_id m)"
| "resolveUserID (JStr s) = (if truthy (JStr s) then JStr s else JNull)"
| "resolveUserID (JMessage m) = JStr (user_id (author m))"
| "resolveUserID (JGuild g) = JStr (ownerID g)"
| "resolveUserID _ = JNull"

fun resolveGuild :: "client \<Rightarrow> val \<Rightarrow> val" where
  "resolveGuild c (JGuild g) = JGuild g"
| "resolveGuild c (JStr s) =
     (case collection_get (guilds c) (JStr s) of Some g \<Rightarrow> JGuild g | None \<Rightarrow> JNull)"
| "resolveGuild c _ = JNull"

text \<open>
  \<open>resolveGuildMember(guild, user)\<close>. After the two resolutions \<open>guild\<close> is a Guild or
  null and \<open>user\<close> is a User or null, so \<open>guild.members.get(user.id)\<close> is read on a
  Guild and a User.
\<close>

fun resolveGuildMember :: "client \<Rightarrow> val \<Rightarrow> val \<Rightarrow> val" where
  "resolveGuildMember c guild (JMember m) = JMember m"
| "resolveGuildMember c guild user =
     (case (resolveGuild c guild, resolveUser c user) of
        (JGuild g, JUser u) \<Rightarrow>
          (case collection_get (members g) (JStr (user_id u)) of
             Some m \<Rightarrow> JMember m
           | None \<Rightarrow> JNull)
      | _ \<Rightarrow> JNull)"

text \<open>
  \<open>resolveChannel(channel)\<close>. In the string branch the key looked up is \<open>channel.id\<close>,
  the \<open>id\<close> property of a string, which is \<open>undefined\<close>.
\<close>

fun resolveChannel :: "client \<Rightarrow> val \<Rightarrow> val" where
  "resolveChannel c (JChannel ch) = JChannel ch"
| "resolveChannel c (JMessage m) = JChannel (message_channel m)"
| "resolveChannel c (JGuild g) =
     (case collection_get (guild_channels g) (JStr (guild_id g)) of
        Some ch \<Rightarrow> JChannel ch
      | None \<Rightarrow> JNull)"
| "resolveChannel c (JStr s) =
     (case collection_get (client_channels c) JUndefined of
        Some ch \<Rightarrow> JChannel ch
      | None \<Rightarrow> JNull)"
| "resolveChannel c _ = JNull"

text \<open>
  \<open>resolvePermission(permission)\<close>. The table \<open>Constants.PermissionFlags\<close> is not among
  the sources and is a parameter: the value each property name reads as, \<open>undefined\<close>
  for a name the table does not have.
\<close>

definition resolvePermission :: "(string \<Rightarrow> val) \<Rightarrow> val \<Rightarrow> error + val" where
  "resolvePermission PermissionFlags permission =
     (let permission1 =
            (case permission of JStr s \<Rightarrow> PermissionFlags s | _ \<Rightarrow> permission)
      in if \<not> is_number permission1 \<or> less_than_one permission1 then Inl NOT_A_PERMISSION
         else Inr permission1)"

section \<open>Observations on the effects\<close>

text \<open>The transform stages constructed, with their constructor calls, in order of
  construction.\<close>

fun stages_of :: "event list \<Rightarrow> (ref \<times> ctor) list" where
  "stages_of [] = []"
| "stages_of (New r c # es) =
     (if is_dispatcher c then stages_of es else (r, c) # stages_of es)"
| "stages_of (Pipe a b # es) = stages_of es"
| "stages_of (Destroy r # es) = stages_of es"

text \<open>The dispatchers constructed, with the arguments of their constructor.\<close>

fun dispatchers_of :: "event list \<Rightarrow> (ref \<times> ctor) list" where
  "dispatchers_of [] = []"
| "dispatchers_of (New r c # es) =
     (if is_dispatcher c then (r, c) # dispatchers_of es else dispatchers_of es)"
| "dispatchers_of (Pipe a b # es) = dispatchers_of es"
| "dispatchers_of (Destroy r # es) = dispatchers_of es"

text \<open>The dispatchers constructed, with the \<open>options\<close> argument of their constructor.\<close>

fun options_of :: "event list \<Rightarrow> (ref \<times> options option) list" where
  "options_of [] = []"
| "options_of (New r (StreamDispatcher opts strs b) # es) = (r, opts) # options_of es"
| "options_of (e # es) = options_of es"

fun pipes_of :: "event list \<Rightarrow> (ref \<times> ref) list" where
  "pipes_of [] = []"
| "pipes_of (Pipe a b # es) = (a, b) # pipes_of es"
| "pipes_of (New r c # es) = pipes_of es"
| "pipes_of (Destroy r # es) = pipes_of es"

fun destroys_of :: "event list \<Rightarrow> ref list" where
  "destroys_of [] = []"
| "destroys_of (Destroy r # es) = r # destroys_of es"
| "destroys_of (New r c # es) = destroys_of es"
| "destroys_of (Pipe a b # es) = destroys_of es"

text \<open>The effects of a call: what the trace of \<open>st'\<close> has after the trace of \<open>st\<close>.\<close>

definition added :: "state \<Rightarrow> state \<Rightarrow> event list" where
  "added st st' = drop (length (trace st)) (trace st')"

text \<open>
  The live dispatchers: constructed and not destroyed since. \<open>single_live l tr\<close> runs
  the trace \<open>tr\<close> from the live dispatchers \<open>l\<close> and checks, before the first event
  and after each one, that at most one dispatcher is live.
\<close>

fun step_live :: "ref list \<Rightarrow> event \<Rightarrow> ref list" where
  "step_live l (New r c) = (if is_dispatcher c then l @ [r] else l)"
| "step_live l (Pipe a b) = l"
| "step_live l (Destroy r) = removeAll r l"

fun single_live :: "ref list \<Rightarrow> event list \<Rightarrow> bool" where
  "single_live l [] = (length l \<le> 1)"
| "single_live l (e # es) = (length l \<le> 1 \<and> single_live (step_live l e) es)"

definition live :: "event list \<Rightarrow> ref list" where
  "live tr = foldl step_live [] tr"

text \<open>The dispatcher slot of the player, as a list.\<close>

definition held :: "state \<Rightarrow> ref list" where
  "held st = (case dispatcher st of None \<Rightarrow> [] | Some d \<Rightarrow> [d])"

definition good :: "state \<Rightarrow> bool" where
  "good st = (single_live [] (trace st) \<and> live (trace st) = held st)"

text \<open>The calls a user of a BasePlayer can make, and a sequence of them. An exception
  ends the call that raised it; the player stays as the call left it.\<close>

datatype call =
    PlayUnknown input "options option"
  | PlayPCMStream ref "options option" streams
  | PlayOpusStream ref "options option" streams
  | CreateDispatcher "options option" streams "ref option"
  | DestroyPlayer

fun exec :: "(nat \<Rightarrow> ctor \<Rightarrow> bool) \<Rightarrow> call \<Rightarrow> state \<Rightarrow> state" where
  "exec thr (PlayUnknown inp opts) st = snd (playUnknown thr inp opts st)"
| "exec thr (PlayPCMStream stream opts strs) st = snd (playPCMStream thr stream opts strs st)"
| "exec thr (PlayOpusStream stream opts strs) st = snd (playOpusStream thr stream opts strs st)"
| "exec thr (CreateDispatcher opts strs b) st = snd (createDispatcher thr opts strs b st)"
| "exec thr DestroyPlayer st = destroy st"

fun run :: "((nat \<Rightarrow> ctor \<Rightarrow> bool) \<times> call) list \<Rightarrow> state \<Rightarrow> state" where
  "run [] st = st"
| "run ((thr, c) # cs) st = run cs (exec thr c st)"

text \<open>A player that is playing: the state after one successful \<open>playOpusStream\<close>.\<close>

definition no_throw :: "nat \<Rightarrow> ctor \<Rightarrow> bool" where
  "no_throw n c = False"

definition playing :: state where
  "playing =
     snd (playOpusStream no_throw (Ext 0)
            (Some \<lparr>seek = JNum 0, volume = JBool False, passes = JNum 1\<rparr>) empty_streams initial)"


text \<open>An environment that supplies the two methods \<open>playStream\<close> calls: a
  \<open>_shutdown\<close> that does nothing and a \<open>convertStream\<close> that returns its stream.\<close>

definition plain_methods :: methods where
  "plain_methods =
     \<lparr>shutdown = Some (\<lambda>st. (Inr (), st)),
      convertStream = Some (\<lambda>stream opts st. (Inr stream, st))\<rparr>"

text \<open>The tests of the resolver on its argument: \<open>x instanceof C\<close> for the five
  structure classes and \<open>typeof x === 'string'\<close>.\<close>

datatype jsclass = User_class | GuildMember_class | Message_class | Guild_class | Channel_class

fun instanceof :: "val \<Rightarrow> jsclass \<Rightarrow> bool" where
  "instanceof (JUser _) k = (k = User_class)"
| "instanceof (JMember _) k = (k = GuildMember_class)"
| "instanceof (JMessage _) k = (k = Message_class)"
| "instanceof (JGuild _) k = (k = Guild_class)"
| "instanceof (JChannel _) k = (k = Channel_class)"
| "instanceof _ k = False"

fun is_string :: "val \<Rightarrow> bool" where
  "is_string (JStr _) = True"
| "is_string _ = False"

text \<open>A client whose caches hold one user, one guild and one channel.\<close>

definition alice :: User where
  "alice = \<lparr>user_id = ''81''\<rparr>"

definition general :: Channel where
  "general = \<lparr>channel_id = ''42''\<rparr>"

definition home :: Guild where
  "home =
     \<lparr>guild_id = ''42'', owner = alice, ownerID = ''81'',
      members = [''81'' \<mapsto> \<lparr>member_id = ''81'', member_user = alice\<rparr>],
      guild_channels = [''42'' \<mapsto> general]\<rparr>"

definition sample_client :: client where
  "sample_client =
     \<lparr>users = [''81'' \<mapsto> alice], guilds = [''42'' \<mapsto> home],
      client_channels = [''42'' \<mapsto> general]\<rparr>"

definition sample_flags :: "string \<Rightarrow> val" where
  "sample_flags =
     (\<lambda>s. JUndefined)(''CREATE_INSTANT_INVITE'' := JNum 1, ''KICK_MEMBERS'' := JNum 2)"

text \<open>Two plays in a row on a new player.\<close>

definition two_plays :: "((nat \<Rightarrow> ctor \<Rightarrow> bool) \<times> call) list" where
  "two_plays =
     [(no_throw,
       PlayOpusStream (Ext 0) (Some \<lparr>seek = JNum 0, volume = JBool False, passes = JNum 1\<rparr>)
         empty_streams),
      (no_throw,
       PlayPCMStream (Ext 1) (Some \<lparr>seek = JNum 0, volume = JBool False, passes = JNum 1\<rparr>)
         empty_streams)]"

text \<open>Options with every property given, and a play that fails on a playing player: the
  volume transformer of \<open>playPCMStream\<close> cannot be constructed.\<close>

definition sample_options :: options where
  "sample_options = \<lparr>seek = JNum 0, volume = JNum 1, passes = JNum 1\<rparr>"


text \<open>An options object with every property omitted.\<close>

definition no_options :: options where
  "no_options = \<lparr>seek = JUndefined, volume = JUndefined, passes = JUndefined\<rparr>"

text \<open>
  The constructor calls in a trace, in order. \<open>first_throw thr n cs\<close> goes through the
  constructor calls \<open>cs\<close>, the first of them made when \<open>n\<close> objects exist, and finds the
  first one that \<open>thr\<close> makes throw; it returns the calls before it and the call itself.
\<close>

fun constructions :: "event list \<Rightarrow> ctor list" where
  "constructions [] = []"
| "constructions (New r c # es) = c # constructions es"
| "constructions (Pipe a b # es) = constructions es"
| "constructions (Destroy r # es) = constructions es"

fun first_throw ::
  "(nat \<Rightarrow> ctor \<Rightarrow> bool) \<Rightarrow> nat \<Rightarrow> ctor list \<Rightarrow> (ctor list \<times> ctor) option" where
  "first_throw thr n [] = None"
| "first_throw thr n (c # cs) =
     (if thr n c then Some ([], c)
      else (case first_throw thr (Suc n) cs of
              None \<Rightarrow> None
            | Some (before, x) \<Rightarrow> Some (c # before, x)))"




text \<open>An encoder, if the constructor call is one, has channels 2, rate 48000 and frame
  size 960.\<close>

fun plain_encoder :: "ctor \<Rightarrow> bool" where
  "plain_encoder (OpusEncoder c r f) = (c = 2 \<and> r = 48000 \<and> f = 960)"
| "plain_encoder _ = True"


section \<open>Fields after each primitive step\<close>

lemma is_false_iff: "is_false v = (v = JBool False)"
  by (cases v) auto

lemma is_undefined_iff: "is_undefined v = (v = JUndefined)"
  by (cases v) auto


lemma alloc_fields [simp]:
  "dispatcher (alloc c st) = dispatcher st"
  "heap_next (alloc c st) = Suc (heap_next st)"
  "trace (alloc c st) = trace st @ [New (Obj (heap_next st)) c]"
  "ffmpeg_arguments (alloc c st) = ffmpeg_arguments st"
  "streamingData (alloc c st) = streamingData st"
  by (simp_all add: alloc_def)

lemma pipe_fields [simp]:
  "dispatcher (pipe a b st) = dispatcher st"
  "heap_next (pipe a b st) = heap_next st"
  "trace (pipe a b st) = trace st @ [Pipe a b]"
  "ffmpeg_arguments (pipe a b st) = ffmpeg_arguments st"
  "streamingData (pipe a b st) = streamingData st"
  by (simp_all add: pipe_def)

lemma destroyDispatcher_fields [simp]:
  "dispatcher (destroyDispatcher st) = None"
  "heap_next (destroyDispatcher st) = heap_next st"
  "trace (destroyDispatcher st) = trace st @ map Destroy (held st)"
  "ffmpeg_arguments (destroyDispatcher st) = ffmpeg_arguments st"
  "streamingData (destroyDispatcher st) = streamingData st"
  by (simp_all add: destroyDispatcher_def dispatcher_destroy_def held_def split: option.splits)

lemma destroyDispatcher_None: "dispatcher st = None \<Longrightarrow> destroyDispatcher st = st"
  by (simp add: destroyDispatcher_def)

lemma held_simps [simp]:
  "held (alloc c st) = held st"
  "held (pipe a b st) = held st"
  "held (destroyDispatcher st) = []"
  "held (st\<lparr>dispatcher := Some d\<rparr>) = [d]"
  "held (st\<lparr>ffmpeg_arguments := as\<rparr>) = held st"
  "length (held st) \<le> Suc 0"
  by (simp_all add: held_def split: option.splits)

section \<open>At most one live dispatcher\<close>

lemma single_live_append:
  "single_live l (xs @ ys) = (single_live l xs \<and> single_live (foldl step_live l xs) ys)"
  by (induction xs arbitrary: l) (auto, (cases ys; simp)+)

lemma single_live_prefixes:
  "single_live l tr = (\<forall>n. length (foldl step_live l (take n tr)) \<le> 1)"
proof (induction tr arbitrary: l)
  case Nil
  then show ?case by simp
next
  case (Cons e es)
  show ?case
  proof
    assume a: "single_live l (e # es)"
    show "\<forall>n. length (foldl step_live l (take n (e # es))) \<le> 1"
    proof
      fix n show "length (foldl step_live l (take n (e # es))) \<le> 1"
        using a Cons.IH[of "step_live l e"] by (cases n) auto
    qed
  next
    assume a: "\<forall>n. length (foldl step_live l (take n (e # es))) \<le> 1"
    have "length l \<le> 1" using a[rule_format, of 0] by simp
    moreover have "\<forall>n. length (foldl step_live (step_live l e) (take n es)) \<le> 1"
    proof
      fix n show "length (foldl step_live (step_live l e) (take n es)) \<le> 1"
        using a[rule_format, of "Suc n"] by simp
    qed
    ultimately show "single_live l (e # es)" using Cons.IH[of "step_live l e"] by simp
  qed
qed

lemma good_pipe [simp]: "good (pipe a b st) = good st"
  by (auto simp: good_def single_live_append live_def)

lemma good_alloc [simp]: "\<not> is_dispatcher c \<Longrightarrow> good (alloc c st) = good st"
  by (auto simp: good_def single_live_append live_def)

lemma good_args [simp]: "good (st\<lparr>ffmpeg_arguments := as\<rparr>) = good st"
  by (simp add: good_def)

lemma good_destroyDispatcher [simp]: "good st \<Longrightarrow> good (destroyDispatcher st)"
  by (auto simp: good_def single_live_append live_def held_def split: option.splits)

lemma good_install [simp]:
  "good st \<Longrightarrow> dispatcher st = None \<Longrightarrow> is_dispatcher c \<Longrightarrow> d = Obj (heap_next st) \<Longrightarrow>
     good ((alloc c st)\<lparr>dispatcher := Some d\<rparr>)"
  by (simp add: good_def single_live_append live_def held_def)

lemma good_createDispatcher:
  "good st \<Longrightarrow> good (snd (createDispatcher thr opts strs b st))"
  by (simp add: createDispatcher_def new_def)

lemma good_playOpusStream:
  "good st \<Longrightarrow> good (snd (playOpusStream thr stream opts strs st))"
  by (simp add: playOpusStream_def createDispatcher_def new_def Let_def split: option.splits)

lemma good_playPCMStream:
  "good st \<Longrightarrow> good (snd (playPCMStream thr stream opts strs st))"
  by (simp add: playPCMStream_def new_def Let_def good_playOpusStream split: option.splits)

lemma good_playUnknown:
  "good st \<Longrightarrow> good (snd (playUnknown thr inp opts st))"
  by (simp add: playUnknown_def new_def Let_def good_playPCMStream
      split: option.splits input.splits)

lemma good_exec: "good st \<Longrightarrow> good (exec thr c st)"
  by (cases c)
    (simp_all add: good_playUnknown good_playPCMStream good_playOpusStream
      good_createDispatcher destroy_def)

lemma good_run: "good st \<Longrightarrow> good (run cs st)"
  by (induction cs arbitrary: st) (auto simp: good_exec)

lemma good_initial: "good (initial\<lparr>ffmpeg_arguments := as, heap_next := n\<rparr>)"
  by (simp add: good_def initial_def live_def held_def)

section \<open>Observations distribute over the trace\<close>

lemma stages_of_append [simp]: "stages_of (xs @ ys) = stages_of xs @ stages_of ys"
  by (induction xs rule: stages_of.induct) auto

lemma dispatchers_of_append [simp]:
  "dispatchers_of (xs @ ys) = dispatchers_of xs @ dispatchers_of ys"
  by (induction xs rule: dispatchers_of.induct) auto

lemma options_of_append [simp]: "options_of (xs @ ys) = options_of xs @ options_of ys"
  by (induction xs rule: options_of.induct) auto

lemma pipes_of_append [simp]: "pipes_of (xs @ ys) = pipes_of xs @ pipes_of ys"
  by (induction xs rule: pipes_of.induct) auto

lemma destroys_of_append [simp]: "destroys_of (xs @ ys) = destroys_of xs @ destroys_of ys"
  by (induction xs rule: destroys_of.induct) auto

lemma of_map_Destroy [simp]:
  "destroys_of (map Destroy rs) = rs"
  "stages_of (map Destroy rs) = []"
  "pipes_of (map Destroy rs) = []"
  "dispatchers_of (map Destroy rs) = []"
  "options_of (map Destroy rs) = []"
  by (induction rs) auto

lemma playing_eq:
  "playing =
     initial\<lparr>dispatcher := Some (Obj 0), heap_next := 1,
       trace :=
         [New (Obj 0)
            (StreamDispatcher (Some \<lparr>seek = JNum 0, volume = JBool False, passes = JNum 1\<rparr>)
               (empty_streams\<lparr>streams_opus := Some (Ext 0)\<rparr>) None),
          Pipe (Ext 0) (Obj 0)]\<rparr>"
  by (simp add: playing_def playOpusStream_def createDispatcher_def new_def no_throw_def Let_def
      initial_def alloc_def pipe_def destroyDispatcher_def empty_streams_def)

section \<open>What a call adds to the trace\<close>

text \<open>A call keeps the trace it starts from.\<close>

lemma keep_createDispatcher:
  "m \<le> length (trace st) \<Longrightarrow>
     take m (trace (snd (createDispatcher thr opts strs b st))) = take m (trace st)"
  by (simp add: createDispatcher_def new_def)

lemma keep_playOpusStream:
  "m \<le> length (trace st) \<Longrightarrow>
     take m (trace (snd (playOpusStream thr stream opts strs st))) = take m (trace st)"
  by (simp add: playOpusStream_def createDispatcher_def new_def Let_def split: option.splits)

lemma keep_playPCMStream:
  "m \<le> length (trace st) \<Longrightarrow>
     take m (trace (snd (playPCMStream thr stream opts strs st))) = take m (trace st)"
  by (simp add: playPCMStream_def new_def Let_def keep_playOpusStream split: option.splits)

lemma keep_playUnknown:
  "m \<le> length (trace st) \<Longrightarrow>
     take m (trace (snd (playUnknown thr inp opts st))) = take m (trace st)"
  by (simp add: playUnknown_def new_def Let_def keep_playPCMStream
      split: option.splits input.splits)

text \<open>The first thing a call does is to destroy the dispatcher held.\<close>

lemma first_createDispatcher:
  "take (length (trace st) + length (held st))
       (trace (snd (createDispatcher thr opts strs b st))) =
     trace st @ map Destroy (held st)"
  by (simp add: createDispatcher_def new_def)

lemma first_playOpusStream:
  "take (length (trace st) + length (held st))
       (trace (snd (playOpusStream thr stream opts strs st))) =
     trace st @ map Destroy (held st)"
  by (simp add: playOpusStream_def createDispatcher_def new_def Let_def split: option.splits)

lemma first_playPCMStream:
  "take (length (trace st) + length (held st))
       (trace (snd (playPCMStream thr stream opts strs st))) =
     trace st @ map Destroy (held st)"
  by (simp add: playPCMStream_def new_def Let_def keep_playOpusStream split: option.splits)

lemma first_playUnknown:
  "take (length (trace st) + length (held st)) (trace (snd (playUnknown thr inp opts st))) =
     trace st @ map Destroy (held st)"
  by (simp add: playUnknown_def new_def Let_def keep_playPCMStream
      split: option.splits input.splits)

lemma first_exec:
  "take (length (trace st) + length (held st)) (trace (exec thr c st)) =
     trace st @ map Destroy (held st)"
  by (cases c)
    (simp_all add: first_playUnknown first_playPCMStream first_playOpusStream
      first_createDispatcher destroy_def)

text \<open>A call destroys the dispatcher held and nothing else.\<close>

lemma destroys_createDispatcher:
  "n \<le> length (trace st) \<Longrightarrow>
     destroys_of (drop n (trace (snd (createDispatcher thr opts strs b st)))) =
       destroys_of (drop n (trace st)) @ held st"
  by (simp add: createDispatcher_def new_def)

lemma destroys_playOpusStream:
  "n \<le> length (trace st) \<Longrightarrow>
     destroys_of (drop n (trace (snd (playOpusStream thr stream opts strs st)))) =
       destroys_of (drop n (trace st)) @ held st"
  by (simp add: playOpusStream_def createDispatcher_def new_def Let_def split: option.splits)

lemma destroys_playPCMStream:
  "n \<le> length (trace st) \<Longrightarrow>
     destroys_of (drop n (trace (snd (playPCMStream thr stream opts strs st)))) =
       destroys_of (drop n (trace st)) @ held st"
  by (simp add: playPCMStream_def new_def Let_def destroys_playOpusStream split: option.splits)

lemma destroys_playUnknown:
  "n \<le> length (trace st) \<Longrightarrow>
     destroys_of (drop n (trace (snd (playUnknown thr inp opts st)))) =
       destroys_of (drop n (trace st)) @ held st"
  by (simp add: playUnknown_def new_def Let_def destroys_playPCMStream
      split: option.splits input.splits)

lemma destroys_exec: "destroys_of (added st (exec thr c st)) = held st"
  by (cases c)
    (simp_all add: added_def destroys_playUnknown destroys_playPCMStream
      destroys_playOpusStream destroys_createDispatcher destroy_def)

text \<open>The slot after a play: the dispatcher returned, or null when the play raised.\<close>

lemma slot_createDispatcher:
  "dispatcher (snd (createDispatcher thr opts strs b st)) =
     (case fst (createDispatcher thr opts strs b st) of Inl e \<Rightarrow> None | Inr d \<Rightarrow> Some d)"
  by (simp add: createDispatcher_def new_def)




text \<open>A play constructs one dispatcher, with the options it was given, or none when it
  raised.\<close>

lemma options_createDispatcher:
  "n \<le> length (trace st) \<Longrightarrow>
     options_of (drop n (trace (snd (createDispatcher thr opts strs b st)))) =
       options_of (drop n (trace st)) @
       (case fst (createDispatcher thr opts strs b st) of
          Inl e \<Rightarrow> []
        | Inr d \<Rightarrow> [(d, opts)])"
  by (simp add: createDispatcher_def new_def)

lemma options_playOpusStream:
  "n \<le> length (trace st) \<Longrightarrow>
     options_of (drop n (trace (snd (playOpusStream thr stream opts strs st)))) =
       options_of (drop n (trace st)) @
       (case fst (playOpusStream thr stream opts strs st) of
          Inl e \<Rightarrow> []
        | Inr d \<Rightarrow> [(d, opts)])"
  by (simp add: playOpusStream_def createDispatcher_def new_def Let_def split: option.splits)

lemma options_playPCMStream:
  "n \<le> length (trace st) \<Longrightarrow>
     options_of (drop n (trace (snd (playPCMStream thr stream opts strs st)))) =
       options_of (drop n (trace st)) @
       (case fst (playPCMStream thr stream opts strs st) of
          Inl e \<Rightarrow> []
        | Inr d \<Rightarrow> [(d, opts)])"
  by (simp add: playPCMStream_def new_def Let_def options_playOpusStream split: option.splits)

lemma options_playUnknown:
  "n \<le> length (trace st) \<Longrightarrow>
     options_of (drop n (trace (snd (playUnknown thr inp opts st)))) =
       options_of (drop n (trace st)) @
       (case fst (playUnknown thr inp opts st) of
          Inl e \<Rightarrow> []
        | Inr d \<Rightarrow> [(d, opts)])"
  by (cases opts; cases inp; hypsubst)
    (simp_all add: playUnknown_def new_def Let_def options_playPCMStream)

text \<open>The stages a play constructs do not depend on \<open>options.passes\<close>.\<close>

lemma stages_passes_playOpusStream:
  "stages_of (trace (snd (playOpusStream thr stream (Some (os\<lparr>passes := p\<rparr>)) strs st))) =
   stages_of (trace (snd (playOpusStream thr stream (Some os) strs st)))"
  by (simp add: playOpusStream_def createDispatcher_def new_def Let_def volume_or_1_def)

lemma stages_passes_playPCMStream:
  "stages_of (trace (snd (playPCMStream thr stream (Some (os\<lparr>passes := p\<rparr>)) strs st))) =
   stages_of (trace (snd (playPCMStream thr stream (Some os) strs st)))"
  by (simp add: playPCMStream_def new_def Let_def volume_or_1_def stages_passes_playOpusStream)

lemma stages_passes_playUnknown:
  "stages_of (trace (snd (playUnknown thr inp (Some (os\<lparr>passes := p\<rparr>)) st))) =
   stages_of (trace (snd (playUnknown thr inp (Some os) st)))"
  by (simp add: playUnknown_def new_def Let_def stages_passes_playPCMStream split: input.splits)

lemmas play_defs =
  playUnknown_def playPCMStream_def playOpusStream_def createDispatcher_def new_def Let_def
  volume_or_1_def empty_streams_def added_def held_def no_throw_def sample_options_def

text \<open>
  \<open>playPCMStream\<close> called with no \<open>streams\<close> argument. With the volume disabled it
  constructs the encoder alone. With the volume enabled, \<open>streams.input\<close> is not set
  when \<open>playOpusStream\<close> tests it, so the decoder, a second volume transformer and a
  second encoder follow the first two stages.
\<close>

lemma playPCMStream_volume_disabled:
  assumes "volume os = JBool False" and "\<And>n c. \<not> thr n c"
  shows "map snd (stages_of (added st (snd (playPCMStream thr stream (Some os) strs st)))) =
           [OpusEncoder 2 48000 960] \<and>
         pipes_of (added st (snd (playPCMStream thr stream (Some os) strs st))) =
           [(stream, Obj (heap_next st)), (Obj (heap_next st), Obj (heap_next st + 1))]"
  using assms by (simp add: play_defs)

lemma playPCMStream_volume_enabled:
  assumes "volume os \<noteq> JBool False" and "streams_input strs = None" and "\<And>n c. \<not> thr n c"
  shows "map snd (stages_of (added st (snd (playPCMStream thr stream (Some os) strs st)))) =
           [OpusEncoder 2 48000 960, VolumeTransformer16LE (volume os),
            OpusDecoder 2 48000 960, VolumeTransformer16LE (volume os),
            OpusEncoder 2 48000 960]"
  using assms by (simp add: play_defs is_false_iff)

text \<open>\<open>playStream\<close> and \<open>playFile\<close>, when they return a dispatcher, end in a
  \<open>playPCMStream\<close> with the options object they built.\<close>

lemma last_options_playPCMStream:
  "fst (playPCMStream thr stream opts strs st) = Inr d \<Longrightarrow>
     last (options_of (trace (snd (playPCMStream thr stream opts strs st)))) = (d, opts)"
  using options_playPCMStream [of 0 st thr stream opts strs] by simp

lemma playStream_tail:
  "fst (playStream thr ms stream (Some ob) st) = Inr d \<Longrightarrow>
     \<exists>pcm st2. playStream thr ms stream (Some ob) st =
        playPCMStream thr pcm (Some (playStream_options ob)) empty_streams st2"
  by (auto simp: playStream_def Let_def split: option.splits prod.splits sum.splits)

lemma playFile_tail:
  "fst (playFile thr ms path (Some ob) st) = Inr d \<Longrightarrow>
     \<exists>pcm st2. playFile thr ms path (Some ob) st =
        playPCMStream thr pcm (Some (playStream_options (playFile_options ob)))
          empty_streams st2"
  by (auto simp: playFile_def new_def Let_def split: if_splits dest!: playStream_tail)

section \<open>Constructor calls and the first that throws\<close>

lemma constructions_append [simp]:
  "constructions (xs @ ys) = constructions xs @ constructions ys"
  by (induction xs rule: constructions.induct) auto

lemma constructions_map_Destroy [simp]: "constructions (map Destroy rs) = []"
  by (induction rs) auto


lemma first_throw_no_throw [simp]: "first_throw no_throw n cs = None"
  by (induction cs arbitrary: n) (auto simp: no_throw_def)





text \<open>Every encoder a play constructs is a plain one.\<close>

lemma encoders_playOpusStream:
  "n \<le> length (trace st) \<Longrightarrow>
   list_all plain_encoder (constructions (drop n (trace (snd (playOpusStream thr stream opts strs st))))) =
   list_all plain_encoder (constructions (drop n (trace st)))"
  by (simp add: playOpusStream_def createDispatcher_def new_def Let_def split: option.splits)

lemma encoders_playPCMStream:
  "n \<le> length (trace st) \<Longrightarrow>
   list_all plain_encoder (constructions (drop n (trace (snd (playPCMStream thr stream opts strs st))))) =
   list_all plain_encoder (constructions (drop n (trace st)))"
  by (simp add: playPCMStream_def new_def Let_def encoders_playOpusStream split: option.splits)

lemma encoders_playUnknown:
  "n \<le> length (trace st) \<Longrightarrow>
   list_all plain_encoder (constructions (drop n (trace (snd (playUnknown thr inp opts st))))) =
   list_all plain_encoder (constructions (drop n (trace st)))"
  by (simp add: playUnknown_def new_def Let_def encoders_playPCMStream split: option.splits input.splits)


lemma destroyDispatcher_same_args [simp]:
  "(destroyDispatcher st)\<lparr>ffmpeg_arguments := ffmpeg_arguments st\<rparr> = destroyDispatcher st"
  by (simp add: destroyDispatcher_def dispatcher_destroy_def split: option.splits)



text \<open>\<open>playFile\<close> and \<open>playStream\<close> up to the call of \<open>playPCMStream\<close>.\<close>

lemma playStream_reaches:
  "shutdown ms = Some sh \<Longrightarrow> sh st = (Inr u, sa) \<Longrightarrow> convertStream ms = Some cv \<Longrightarrow>
     playStream thr ms stream (Some ob) st =
       (case cv stream (playStream_options ob) sa of
          (Inl e, sb) \<Rightarrow> (Inl e, sb)
        | (Inr pcm, sb) \<Rightarrow>
            playPCMStream thr pcm (Some (playStream_options ob)) empty_streams sb)"
  by (simp add: playStream_def Let_def)

lemma playFile_reaches:
  "\<not> thr (heap_next st) (ReadStream path) \<Longrightarrow>
     playFile thr ms path (Some ob) st =
       playStream thr ms (Obj (heap_next st)) (Some (playFile_options ob))
         (alloc (ReadStream path) st)"
  by (simp add: playFile_def new_def)


section \<open>The claims\<close>

text \<open>
  C1. On a new player, after any sequence of calls of \<open>playUnknown\<close>, \<open>playPCMStream\<close>,
  \<open>playOpusStream\<close>, \<open>createDispatcher\<close> and \<open>destroy\<close>, whatever constructors throw,
  at most one dispatcher is live before and after every single effect of the run, and the
  live dispatchers at the end are exactly the dispatcher in the player's slot. From any
  state, what a call does first is to call \<open>destroy\<close> on the dispatcher held, and that
  is the only \<open>destroy\<close> it calls, so the dispatcher it may then construct and store
  comes after the old one is gone.
\<close>

theorem one_live_dispatcher:
  "single_live [] (trace (run cs (initial\<lparr>ffmpeg_arguments := as, heap_next := n\<rparr>))) \<and>
   live (trace (run cs (initial\<lparr>ffmpeg_arguments := as, heap_next := n\<rparr>))) =
     held (run cs (initial\<lparr>ffmpeg_arguments := as, heap_next := n\<rparr>)) \<and>
   take (length (trace st) + length (held st)) (trace (exec thr c st)) =
     trace st @ map Destroy (held st) \<and>
   destroys_of (added st (exec thr c st)) = held st"
  using good_run [OF good_initial] first_exec [of st thr c] destroys_exec [of st thr c]
  by (simp add: good_def)

theorem one_live_dispatcher_witness:
  "single_live [] (trace (run two_plays initial)) \<and>
   live (trace (run two_plays initial)) = [Obj 2] \<and>
   dispatcher (run two_plays initial) = Some (Obj 2) \<and>
   take 3 (trace (run two_plays initial)) = trace playing @ [Destroy (Obj 0)] \<and>
   destroys_of (added playing (run two_plays initial)) = [Obj 0]"
proof -
  have r: "run two_plays initial =
      exec no_throw
        (PlayPCMStream (Ext 1) (Some \<lparr>seek = JNum 0, volume = JBool False, passes = JNum 1\<rparr>)
           empty_streams) playing"
    by (simp add: two_plays_def playing_def)
  have i: "initial\<lparr>ffmpeg_arguments := FFMPEG_ARGUMENTS, heap_next := 0\<rparr> = initial"
    by (simp add: initial_def)
  have h: "held playing = [Obj 0]" "length (trace playing) = 2"
    by (simp_all add: playing_eq held_def)
  have d: "held (run two_plays initial) = [Obj 2]"
    unfolding r
    by (simp add: playing_eq playPCMStream_def playOpusStream_def createDispatcher_def new_def
        no_throw_def Let_def held_def)
  show ?thesis
    using one_live_dispatcher [where cs = two_plays and as = FFMPEG_ARGUMENTS and n = 0
        and st = playing and thr = no_throw
        and c = "PlayPCMStream (Ext 1)
                   (Some \<lparr>seek = JNum 0, volume = JBool False, passes = JNum 1\<rparr>) empty_streams"]
    unfolding i r [symmetric] using d h
    by (simp add: held_def numeral_3_eq_3 split: option.splits)
qed

text \<open>
  C2. \<open>playOpusStream\<close> with \<open>options.volume === false\<close>, when the dispatcher can be
  constructed: the player constructs no stage at all (no decoder, no volume transformer,
  no encoder); after destroying the dispatcher held it constructs the dispatcher, whose
  \<open>streams.opus\<close> is the caller's stream, and the only pipe it makes is from the
  caller's stream to the dispatcher. The pipeline is that one stream.
\<close>

theorem opus_passthrough:
  assumes "volume os = JBool False"
    and "\<not> thr (heap_next st)
               (StreamDispatcher (Some os) (strs\<lparr>streams_opus := Some stream\<rparr>) None)"
  shows "fst (playOpusStream thr stream (Some os) strs st) = Inr (Obj (heap_next st)) \<and>
         added st (snd (playOpusStream thr stream (Some os) strs st)) =
           map Destroy (held st) @
           [New (Obj (heap_next st))
              (StreamDispatcher (Some os) (strs\<lparr>streams_opus := Some stream\<rparr>) None),
            Pipe stream (Obj (heap_next st))] \<and>
         stages_of (added st (snd (playOpusStream thr stream (Some os) strs st))) = [] \<and>
         pipes_of (added st (snd (playOpusStream thr stream (Some os) strs st))) =
           [(stream, Obj (heap_next st))]"
  using assms
  by (simp add: playOpusStream_def createDispatcher_def new_def Let_def added_def)

theorem opus_passthrough_witness:
  "volume (sample_options\<lparr>volume := JBool False\<rparr>) = JBool False \<and>
   fst (playOpusStream no_throw (Ext 0) (Some (sample_options\<lparr>volume := JBool False\<rparr>))
          empty_streams initial) = Inr (Obj 0) \<and>
   stages_of (added initial
      (snd (playOpusStream no_throw (Ext 0) (Some (sample_options\<lparr>volume := JBool False\<rparr>))
              empty_streams initial))) = [] \<and>
   pipes_of (added initial
      (snd (playOpusStream no_throw (Ext 0) (Some (sample_options\<lparr>volume := JBool False\<rparr>))
              empty_streams initial))) = [(Ext 0, Obj 0)]"
proof -
  have v: "volume (sample_options\<lparr>volume := JBool False\<rparr>) = JBool False" by simp
  have t: "\<not> no_throw (heap_next initial)
               (StreamDispatcher (Some (sample_options\<lparr>volume := JBool False\<rparr>))
                  (empty_streams\<lparr>streams_opus := Some (Ext 0)\<rparr>) None)"
    by (simp add: no_throw_def)
  show ?thesis
    using opus_passthrough [where os = "sample_options\<lparr>volume := JBool False\<rparr>"
        and thr = no_throw and strs = empty_streams and stream = "Ext 0" and st = initial] v t
    by (simp add: initial_def)
qed

text \<open>
  C3. \<open>playPCMStream(stream, options)\<close> with the volume enabled, on a new player where
  no constructor throws: the player constructs five stages, not two. After the
  encoder and the volume transformer of \<open>playPCMStream\<close>, \<open>playOpusStream\<close> constructs a
  decoder, a second volume transformer and a second encoder, and the stream runs through
  all five on its way to the dispatcher.
\<close>

theorem pcm_volume_enabled_stages:
  "stages_of (trace (snd (playPCMStream no_throw (Ext 0) (Some sample_options) empty_streams
                            initial))) =
     [(Obj 0, OpusEncoder 2 48000 960), (Obj 1, VolumeTransformer16LE (JNum 1)),
      (Obj 2, OpusDecoder 2 48000 960), (Obj 3, VolumeTransformer16LE (JNum 1)),
      (Obj 4, OpusEncoder 2 48000 960)] \<and>
   pipes_of (trace (snd (playPCMStream no_throw (Ext 0) (Some sample_options) empty_streams
                           initial))) =
     [(Ext 0, Obj 1), (Obj 1, Obj 0), (Obj 0, Obj 2), (Obj 2, Obj 3), (Obj 3, Obj 4),
      (Obj 4, Obj 5)] \<and>
   fst (playPCMStream no_throw (Ext 0) (Some sample_options) empty_streams initial) =
     Inr (Obj 5)"
  by (simp add: play_defs initial_def)

text \<open>
  C4. \<open>playOpusStream\<close> with the volume enabled (\<open>options.volume !== false\<close>) and no
  \<open>streams.input\<close> (as when the \<open>streams\<close> argument is omitted), when no constructor
  throws: the stages constructed are, in this order, an opus decoder, a volume
  transformer with \<open>options.volume\<close>, and an opus encoder; the caller's stream is piped
  to the decoder, the decoder to the volume transformer, that to the encoder and the
  encoder to the dispatcher, whose \<open>streams.opus\<close> is the encoder.
\<close>

theorem opus_volume_chain:
  assumes "volume os \<noteq> JBool False" and "streams_input strs = None" and "\<And>n c. \<not> thr n c"
  shows "fst (playOpusStream thr stream (Some os) strs st) = Inr (Obj (heap_next st + 3)) \<and>
         stages_of (added st (snd (playOpusStream thr stream (Some os) strs st))) =
           [(Obj (heap_next st), OpusDecoder 2 48000 960),
            (Obj (heap_next st + 1), VolumeTransformer16LE (volume os)),
            (Obj (heap_next st + 2), OpusEncoder 2 48000 960)] \<and>
         pipes_of (added st (snd (playOpusStream thr stream (Some os) strs st))) =
           [(stream, Obj (heap_next st)),
            (Obj (heap_next st), Obj (heap_next st + 1)),
            (Obj (heap_next st + 1), Obj (heap_next st + 2)),
            (Obj (heap_next st + 2), Obj (heap_next st + 3))] \<and>
         dispatchers_of (added st (snd (playOpusStream thr stream (Some os) strs st))) =
           [(Obj (heap_next st + 3),
             StreamDispatcher (Some os)
               (strs\<lparr>streams_input := Some stream,
                     streams_volume := Some (Obj (heap_next st + 1)),
                     streams_opus := Some (Obj (heap_next st + 2))\<rparr>) None)]"
  using assms
  by (simp add: playOpusStream_def createDispatcher_def new_def Let_def added_def is_false_iff
      volume_or_1_def)

theorem opus_volume_chain_witness:
  "volume sample_options \<noteq> JBool False \<and>
   streams_input empty_streams = None \<and>
   fst (playOpusStream no_throw (Ext 0) (Some sample_options) empty_streams initial) =
     Inr (Obj 3) \<and>
   stages_of (added initial
      (snd (playOpusStream no_throw (Ext 0) (Some sample_options) empty_streams initial))) =
     [(Obj 0, OpusDecoder 2 48000 960), (Obj 1, VolumeTransformer16LE (JNum 1)),
      (Obj 2, OpusEncoder 2 48000 960)] \<and>
   pipes_of (added initial
      (snd (playOpusStream no_throw (Ext 0) (Some sample_options) empty_streams initial))) =
     [(Ext 0, Obj 0), (Obj 0, Obj 1), (Obj 1, Obj 2), (Obj 2, Obj 3)]"
proof -
  have v: "volume sample_options \<noteq> JBool False" by (simp add: sample_options_def)
  have i: "streams_input empty_streams = None" by (simp add: empty_streams_def)
  have t: "\<And>n c. \<not> no_throw n c" by (simp add: no_throw_def)
  show ?thesis
    using opus_volume_chain [where os = sample_options and strs = empty_streams
        and thr = no_throw and stream = "Ext 0" and st = initial] v i t
    by (simp add: initial_def sample_options_def)
qed

text \<open>
  C5, as the claim states it, at a play with \<open>passes: 5\<close>: the one stage constructed is
  the encoder, with channels 2, rate 48000 and frame size 960 and nothing of the passes;
  the 5 is in the options object given to the StreamDispatcher constructor.
\<close>

theorem passes_goes_to_dispatcher:
  "stages_of (trace (snd (playPCMStream no_throw (Ext 0)
      (Some (sample_options\<lparr>volume := JBool False, passes := JNum 5\<rparr>)) empty_streams
      initial))) =
     [(Obj 0, OpusEncoder 2 48000 960)] \<and>
   options_of (trace (snd (playPCMStream no_throw (Ext 0)
      (Some (sample_options\<lparr>volume := JBool False, passes := JNum 5\<rparr>)) empty_streams
      initial))) =
     [(Obj 1, Some \<lparr>seek = JNum 0, volume = JBool False, passes = JNum 5\<rparr>)]"
  by (simp add: play_defs initial_def)

text \<open>
  C5, amended. \<open>options.passes\<close> is a construction parameter of no stage.
  \<open>playUnknown\<close>, \<open>playPCMStream\<close> and \<open>playOpusStream\<close> construct the same stages
  whatever \<open>passes\<close> is, every encoder with channels 2, rate 48000 and frame size 960;
  when one of them returns a dispatcher it has constructed that one dispatcher, with the
  options object it was given, \<open>passes\<close> as it was. \<open>playStream\<close> sets an omitted
  \<open>passes\<close> to 1 and keeps a given one, and gives the options object to
  \<open>this.convertStream\<close> and then to \<open>playPCMStream\<close>. \<open>playFile\<close> gives
  \<open>playStream\<close> an options object without \<open>passes\<close>, so whatever \<open>passes\<close> its
  caller gave becomes 1.
\<close>

theorem passes_not_a_stage_parameter:
  "stages_of (trace (snd (playUnknown thr inp (Some (os\<lparr>passes := p\<rparr>)) st))) =
     stages_of (trace (snd (playUnknown thr inp (Some os) st))) \<and>
   stages_of (trace (snd (playPCMStream thr stream (Some (os\<lparr>passes := p\<rparr>)) strs st))) =
     stages_of (trace (snd (playPCMStream thr stream (Some os) strs st))) \<and>
   stages_of (trace (snd (playOpusStream thr stream (Some (os\<lparr>passes := p\<rparr>)) strs st))) =
     stages_of (trace (snd (playOpusStream thr stream (Some os) strs st))) \<and>
   list_all plain_encoder (constructions (added st (snd (playUnknown thr inp opts st)))) \<and>
   list_all plain_encoder
     (constructions (added st (snd (playPCMStream thr stream opts strs st)))) \<and>
   list_all plain_encoder
     (constructions (added st (snd (playOpusStream thr stream opts strs st)))) \<and>
   (fst (playUnknown thr inp (Some os) st) = Inr d \<longrightarrow>
      options_of (added st (snd (playUnknown thr inp (Some os) st))) = [(d, Some os)]) \<and>
   (fst (playPCMStream thr stream (Some os) strs st) = Inr d \<longrightarrow>
      options_of (added st (snd (playPCMStream thr stream (Some os) strs st))) =
        [(d, Some os)]) \<and>
   (fst (playOpusStream thr stream (Some os) strs st) = Inr d \<longrightarrow>
      options_of (added st (snd (playOpusStream thr stream (Some os) strs st))) =
        [(d, Some os)]) \<and>
   passes (playStream_options ob) = (if is_undefined (passes ob) then JNum 1 else passes ob) \<and>
   passes (playStream_options (playFile_options ob)) = JNum 1 \<and>
   (shutdown ms = Some sh \<and> sh st = (Inr u, sa) \<and> convertStream ms = Some cv \<longrightarrow>
      playStream thr ms stream (Some ob) st =
        (case cv stream (playStream_options ob) sa of
           (Inl e, sb) \<Rightarrow> (Inl e, sb)
         | (Inr pcm, sb) \<Rightarrow>
             playPCMStream thr pcm (Some (playStream_options ob)) empty_streams sb)) \<and>
   (\<not> thr (heap_next st) (ReadStream path) \<longrightarrow>
      playFile thr ms path (Some ob) st =
        playStream thr ms (Obj (heap_next st)) (Some (playFile_options ob))
          (alloc (ReadStream path) st))"
  using playStream_reaches [of ms sh st u sa cv thr stream ob]
    playFile_reaches [of thr st path ms ob]
  by (simp add: added_def stages_passes_playUnknown stages_passes_playPCMStream
      stages_passes_playOpusStream options_playUnknown options_playPCMStream
      options_playOpusStream encoders_playUnknown encoders_playPCMStream
      encoders_playOpusStream playStream_options_def playFile_options_def default_to_def)

theorem passes_not_a_stage_parameter_witness:
  "fst (playUnknown no_throw (Path ''a.mp3'') (Some sample_options) initial) = Inr (Obj 6) \<and>
   options_of (added initial
      (snd (playUnknown no_throw (Path ''a.mp3'') (Some sample_options) initial))) =
     [(Obj 6, Some sample_options)] \<and>
   fst (playPCMStream no_throw (Ext 0) (Some sample_options) empty_streams initial) =
     Inr (Obj 5) \<and>
   options_of (added initial
      (snd (playPCMStream no_throw (Ext 0) (Some sample_options) empty_streams initial))) =
     [(Obj 5, Some sample_options)] \<and>
   fst (playOpusStream no_throw (Ext 0) (Some sample_options) empty_streams initial) =
     Inr (Obj 3) \<and>
   options_of (added initial
      (snd (playOpusStream no_throw (Ext 0) (Some sample_options) empty_streams initial))) =
     [(Obj 3, Some sample_options)] \<and>
   stages_of (trace (snd (playPCMStream no_throw (Ext 0)
      (Some (sample_options\<lparr>passes := JNum 5\<rparr>)) empty_streams initial))) =
   stages_of (trace (snd (playPCMStream no_throw (Ext 0) (Some sample_options) empty_streams
      initial))) \<and>
   list_all plain_encoder (constructions (added initial
      (snd (playPCMStream no_throw (Ext 0) (Some sample_options) empty_streams initial)))) \<and>
   passes (playStream_options no_options) = JNum 1 \<and>
   passes (playStream_options (playFile_options no_options)) = JNum 1 \<and>
   playStream no_throw plain_methods (Ext 0) (Some no_options) initial =
     playPCMStream no_throw (Ext 0) (Some (playStream_options no_options)) empty_streams
       initial \<and>
   playFile no_throw plain_methods ''a.mp3'' (Some no_options) initial =
     playStream no_throw plain_methods (Obj (heap_next initial))
       (Some (playFile_options no_options)) (alloc (ReadStream ''a.mp3'') initial)"
proof -
  have u: "fst (playUnknown no_throw (Path ''a.mp3'') (Some sample_options) initial) =
      Inr (Obj 6)"
    by (simp add: play_defs initial_def)
  have p: "fst (playPCMStream no_throw (Ext 0) (Some sample_options) empty_streams initial) =
      Inr (Obj 5)"
    by (simp add: play_defs initial_def)
  have o: "fst (playOpusStream no_throw (Ext 0) (Some sample_options) empty_streams initial) =
      Inr (Obj 3)"
    by (simp add: play_defs initial_def)
  have r: "\<not> no_throw (heap_next initial) (ReadStream ''a.mp3'')"
    by (simp add: no_throw_def)
  have m: "shutdown plain_methods = Some (\<lambda>st. (Inr (), st)) \<and>
      (\<lambda>st. (Inr (), st)) initial = (Inr (), initial) \<and>
      convertStream plain_methods = Some (\<lambda>stream opts st. (Inr stream, st))"
    by (simp add: plain_methods_def)
  note U = passes_not_a_stage_parameter [where thr = no_throw and inp = "Path ''a.mp3''"
        and os = sample_options and opts = "Some sample_options" and st = initial
        and stream = "Ext 0" and strs = empty_streams and p = "JNum 5"
        and ob = no_options and ms = plain_methods and path = "''a.mp3''"
        and sh = "\<lambda>st. (Inr (), st)" and u = "()" and sa = initial
        and cv = "\<lambda>stream opts st. (Inr stream, st)" and d = "Obj 6"]
  note P = passes_not_a_stage_parameter [where thr = no_throw and inp = "Path ''a.mp3''"
        and os = sample_options and opts = "Some sample_options" and st = initial
        and stream = "Ext 0" and strs = empty_streams and p = "JNum 5"
        and ob = no_options and ms = plain_methods and path = "''a.mp3''"
        and sh = "\<lambda>st. (Inr (), st)" and u = "()" and sa = initial
        and cv = "\<lambda>stream opts st. (Inr stream, st)" and d = "Obj 5"]
  note O = passes_not_a_stage_parameter [where thr = no_throw and inp = "Path ''a.mp3''"
        and os = sample_options and opts = "Some sample_options" and st = initial
        and stream = "Ext 0" and strs = empty_streams and p = "JNum 5"
        and ob = no_options and ms = plain_methods and path = "''a.mp3''"
        and sh = "\<lambda>st. (Inr (), st)" and u = "()" and sa = initial
        and cv = "\<lambda>stream opts st. (Inr stream, st)" and d = "Obj 3"]
  have a: "options_of (added initial
      (snd (playUnknown no_throw (Path ''a.mp3'') (Some sample_options) initial))) =
     [(Obj 6, Some sample_options)]"
    using U [THEN conjunct2, THEN conjunct2, THEN conjunct2, THEN conjunct2, THEN conjunct2, THEN conjunct2, THEN conjunct1] u by (rule mp)
  have b: "options_of (added initial
      (snd (playPCMStream no_throw (Ext 0) (Some sample_options) empty_streams initial))) =
     [(Obj 5, Some sample_options)]"
    using P [THEN conjunct2, THEN conjunct2, THEN conjunct2, THEN conjunct2, THEN conjunct2, THEN conjunct2, THEN conjunct2, THEN conjunct1] p by (rule mp)
  have c: "options_of (added initial
      (snd (playOpusStream no_throw (Ext 0) (Some sample_options) empty_streams initial))) =
     [(Obj 3, Some sample_options)]"
    using O [THEN conjunct2, THEN conjunct2, THEN conjunct2, THEN conjunct2, THEN conjunct2, THEN conjunct2, THEN conjunct2, THEN conjunct2, THEN conjunct1] o by (rule mp)
  have d: "playStream no_throw plain_methods (Ext 0) (Some no_options) initial =
      (case (\<lambda>stream opts st. (Inr stream, st)) (Ext 0) (playStream_options no_options)
              initial of
         (Inl e, sb) \<Rightarrow> (Inl e, sb)
       | (Inr pcm, sb) \<Rightarrow>
           playPCMStream no_throw pcm (Some (playStream_options no_options)) empty_streams sb)"
    using U [THEN conjunct2, THEN conjunct2, THEN conjunct2, THEN conjunct2, THEN conjunct2, THEN conjunct2, THEN conjunct2, THEN conjunct2, THEN conjunct2, THEN conjunct2, THEN conjunct2, THEN conjunct1] m by (rule mp)
  have e: "playFile no_throw plain_methods ''a.mp3'' (Some no_options) initial =
     playStream no_throw plain_methods (Obj (heap_next initial))
       (Some (playFile_options no_options)) (alloc (ReadStream ''a.mp3'') initial)"
    using U [THEN conjunct2, THEN conjunct2, THEN conjunct2, THEN conjunct2, THEN conjunct2, THEN conjunct2, THEN conjunct2, THEN conjunct2, THEN conjunct2, THEN conjunct2, THEN conjunct2, THEN conjunct2] r by (rule mp)
  have f: "passes (playStream_options no_options) = JNum 1"
    using U [THEN conjunct2, THEN conjunct2, THEN conjunct2, THEN conjunct2, THEN conjunct2, THEN conjunct2, THEN conjunct2, THEN conjunct2, THEN conjunct2, THEN conjunct1] by (simp add: no_options_def)
  show ?thesis
    using u p o a b c e f U [THEN conjunct2, THEN conjunct1] U [THEN conjunct2, THEN conjunct2, THEN conjunct2, THEN conjunct2, THEN conjunct1] U [THEN conjunct2, THEN conjunct2, THEN conjunct2, THEN conjunct2, THEN conjunct2, THEN conjunct2, THEN conjunct2, THEN conjunct2, THEN conjunct2, THEN conjunct2, THEN conjunct1]
    by (simp add: d)
qed




text \<open>
  C7. With a dispatcher \<open>d\<close> in the slot, the first \<open>destroy()\<close> of the player calls
  \<open>d.destroy()\<close> once and empties the slot; the second \<open>destroy()\<close> changes nothing: it
  makes no call at all, so \<open>d.destroy()\<close> has been called exactly once and the slot is
  null.
\<close>

theorem destroy_idempotent:
  "dispatcher st = Some d \<Longrightarrow>
     added st (destroy st) = [Destroy d] \<and>
     dispatcher (destroy st) = None \<and>
     destroy (destroy st) = destroy st \<and>
     added st (destroy (destroy st)) = [Destroy d]"
  by (simp add: destroy_def destroyDispatcher_None held_def added_def)

theorem destroy_idempotent_witness:
  "dispatcher playing = Some (Obj 0) \<and>
   added playing (destroy playing) = [Destroy (Obj 0)] \<and>
   dispatcher (destroy playing) = None \<and>
   destroy (destroy playing) = destroy playing \<and>
   added playing (destroy (destroy playing)) = [Destroy (Obj 0)]"
  using destroy_idempotent [of playing "Obj 0"] by (simp add: playing_eq)

text \<open>
  C8. The options object that \<open>playStream\<close> builds has \<open>seek\<close> 0, \<open>volume\<close> 1 and
  \<open>passes\<close> 1 wherever the caller omitted the property, and the one that reaches
  \<open>playStream\<close> from \<open>playFile\<close> has \<open>seek\<close> 0 and \<open>volume\<close> 1 where omitted and
  \<open>passes\<close> 1. Whenever \<open>playStream\<close> or \<open>playFile\<close> returns a dispatcher, the call
  ended in \<open>playPCMStream\<close> on that options object, which selected the stages, and the
  dispatcher returned is the last one constructed, with that options object.
\<close>

theorem defaulted_options:
  "(seek ob = JUndefined \<longrightarrow> seek (playStream_options ob) = JNum 0) \<and>
   (volume ob = JUndefined \<longrightarrow> volume (playStream_options ob) = JNum 1) \<and>
   (passes ob = JUndefined \<longrightarrow> passes (playStream_options ob) = JNum 1) \<and>
   (seek ob = JUndefined \<longrightarrow> seek (playStream_options (playFile_options ob)) = JNum 0) \<and>
   (volume ob = JUndefined \<longrightarrow> volume (playStream_options (playFile_options ob)) = JNum 1) \<and>
   passes (playStream_options (playFile_options ob)) = JNum 1 \<and>
   (fst (playStream thr ms stream (Some ob) st) = Inr d \<longrightarrow>
      (\<exists>pcm st2. playStream thr ms stream (Some ob) st =
         playPCMStream thr pcm (Some (playStream_options ob)) empty_streams st2) \<and>
      last (options_of (trace (snd (playStream thr ms stream (Some ob) st)))) =
        (d, Some (playStream_options ob))) \<and>
   (fst (playFile thr ms path (Some ob) st) = Inr d \<longrightarrow>
      (\<exists>pcm st2. playFile thr ms path (Some ob) st =
         playPCMStream thr pcm (Some (playStream_options (playFile_options ob)))
           empty_streams st2) \<and>
      last (options_of (trace (snd (playFile thr ms path (Some ob) st)))) =
        (d, Some (playStream_options (playFile_options ob))))"
proof -
  have a: "last (options_of (trace (snd (playStream thr ms stream (Some ob) st)))) =
        (d, Some (playStream_options ob))"
    if h: "fst (playStream thr ms stream (Some ob) st) = Inr d"
  proof -
    from playStream_tail [OF h] obtain pcm st2 where
      e: "playStream thr ms stream (Some ob) st =
            playPCMStream thr pcm (Some (playStream_options ob)) empty_streams st2"
      by blast
    show ?thesis
      using h last_options_playPCMStream
        [of thr pcm "Some (playStream_options ob)" empty_streams st2 d]
      unfolding e by simp
  qed
  have b: "last (options_of (trace (snd (playFile thr ms path (Some ob) st)))) =
        (d, Some (playStream_options (playFile_options ob)))"
    if h: "fst (playFile thr ms path (Some ob) st) = Inr d"
  proof -
    from playFile_tail [OF h] obtain pcm st2 where
      e: "playFile thr ms path (Some ob) st =
            playPCMStream thr pcm (Some (playStream_options (playFile_options ob)))
              empty_streams st2"
      by blast
    show ?thesis
      using h last_options_playPCMStream
        [of thr pcm "Some (playStream_options (playFile_options ob))" empty_streams st2 d]
      unfolding e by simp
  qed
  show ?thesis
    using a b playStream_tail [of thr ms stream ob st d] playFile_tail [of thr ms path ob st d]
    by (simp add: playStream_options_def playFile_options_def default_to_def)
qed

theorem defaulted_options_witness:
  "seek no_options = JUndefined \<and> volume no_options = JUndefined \<and>
   passes no_options = JUndefined \<and>
   seek (playStream_options no_options) = JNum 0 \<and>
   volume (playStream_options no_options) = JNum 1 \<and>
   passes (playStream_options no_options) = JNum 1 \<and>
   seek (playStream_options (playFile_options no_options)) = JNum 0 \<and>
   volume (playStream_options (playFile_options no_options)) = JNum 1 \<and>
   passes (playStream_options (playFile_options no_options)) = JNum 1 \<and>
   fst (playStream no_throw plain_methods (Ext 0) (Some no_options) initial) = Inr (Obj 5) \<and>
   last (options_of (trace (snd (playStream no_throw plain_methods (Ext 0) (Some no_options)
      initial)))) = (Obj 5, Some (playStream_options no_options)) \<and>
   fst (playFile no_throw plain_methods ''a.mp3'' (Some no_options) initial) = Inr (Obj 6) \<and>
   last (options_of (trace (snd (playFile no_throw plain_methods ''a.mp3'' (Some no_options)
      initial)))) = (Obj 6, Some (playStream_options (playFile_options no_options)))"
proof -
  have n: "seek no_options = JUndefined" "volume no_options = JUndefined"
    "passes no_options = JUndefined"
    by (simp_all add: no_options_def)
  have s: "fst (playStream no_throw plain_methods (Ext 0) (Some no_options) initial) =
      Inr (Obj 5)"
    by (simp add: playStream_def plain_methods_def playStream_options_def default_to_def
        no_options_def play_defs initial_def)
  have f: "fst (playFile no_throw plain_methods ''a.mp3'' (Some no_options) initial) =
      Inr (Obj 6)"
    by (simp add: playFile_def playStream_def plain_methods_def playStream_options_def
        playFile_options_def default_to_def no_options_def play_defs initial_def)
  show ?thesis
    using
      defaulted_options [where ob = no_options and thr = no_throw and ms = plain_methods
        and stream = "Ext 0" and st = initial and d = "Obj 5" and path = "''a.mp3''"]
      defaulted_options [where ob = no_options and thr = no_throw and ms = plain_methods
        and stream = "Ext 0" and st = initial and d = "Obj 6" and path = "''a.mp3''"]
      n s f
    by simp
qed

text \<open>
  C9, as the claim states it, at \<open>resolvePermission\<close>: on a name that is not a
  permission flag, on \<open>undefined\<close> and on the number 0 it throws; it does not return
  null.
\<close>

theorem resolvePermission_throws:
  "resolvePermission sample_flags (JStr ''FLY'') = Inl NOT_A_PERMISSION \<and>
   resolvePermission sample_flags JUndefined = Inl NOT_A_PERMISSION \<and>
   resolvePermission sample_flags (JNum 0) = Inl NOT_A_PERMISSION"
  by (simp add: resolvePermission_def sample_flags_def)

text \<open>
  C9, amended. Each of \<open>resolveUser\<close>, \<open>resolveUserID\<close>, \<open>resolveGuild\<close>,
  \<open>resolveGuildMember\<close> and \<open>resolveChannel\<close> returns null on an input it cannot
  resolve: for \<open>resolveUser\<close> and \<open>resolveGuild\<close> an input that is neither of a class
  the function accepts nor a key of the cache; for \<open>resolveUserID\<close> one that is neither
  of such a class nor a non-empty string; for \<open>resolveGuildMember\<close> a user that is no
  GuildMember when the guild or the user does not resolve or the guild has no such member;
  for \<open>resolveChannel\<close> one that is no Channel, no Message and no Guild with a channel of
  its own ID. \<open>resolvePermission\<close> never returns null. With a string first replaced by
  what the flag table has under it, it throws NOT_A_PERMISSION when the permission is
  not of type number or is less than 1, and returns the permission otherwise; so it
  returns NaN on NaN, which is a number and not less than 1.
\<close>

theorem resolvers_on_unresolvable:
  "(\<not> instanceof v User_class \<and> \<not> instanceof v GuildMember_class \<and>
    \<not> instanceof v Message_class \<and> \<not> instanceof v Guild_class \<and>
    collection_get (users c) v = None \<longrightarrow> resolveUser c v = JNull) \<and>
   (\<not> instanceof v User_class \<and> \<not> instanceof v GuildMember_class \<and>
    \<not> instanceof v Message_class \<and> \<not> instanceof v Guild_class \<and>
    \<not> (is_string v \<and> truthy v) \<longrightarrow> resolveUserID v = JNull) \<and>
   (\<not> instanceof v Guild_class \<and> collection_get (guilds c) v = None \<longrightarrow>
      resolveGuild c v = JNull) \<and>
   (\<not> instanceof u GuildMember_class \<and>
    (\<forall>g' u'. resolveGuild c g = JGuild g' \<and> resolveUser c u = JUser u' \<longrightarrow>
       members g' (user_id u') = None) \<longrightarrow> resolveGuildMember c g u = JNull) \<and>
   (\<not> instanceof v Channel_class \<and> \<not> instanceof v Message_class \<and>
    (\<forall>g'. v = JGuild g' \<longrightarrow> guild_channels g' (guild_id g') = None) \<longrightarrow>
      resolveChannel c v = JNull) \<and>
   resolvePermission flags v \<noteq> Inr JNull \<and>
   (\<not> is_string v \<and> (\<not> is_number v \<or> less_than_one v) \<longrightarrow>
      resolvePermission flags v = Inl NOT_A_PERMISSION) \<and>
   (\<not> is_number (flags s) \<or> less_than_one (flags s) \<longrightarrow>
      resolvePermission flags (JStr s) = Inl NOT_A_PERMISSION) \<and>
   (is_number v \<and> \<not> less_than_one v \<longrightarrow> resolvePermission flags v = Inr v) \<and>
   (is_number (flags s) \<and> \<not> less_than_one (flags s) \<longrightarrow>
      resolvePermission flags (JStr s) = Inr (flags s)) \<and>
   resolvePermission flags JNaN = Inr JNaN"
proof -
  have 1: "resolveUser c v = JNull"
    if "\<not> instanceof v User_class" "\<not> instanceof v GuildMember_class"
       "\<not> instanceof v Message_class" "\<not> instanceof v Guild_class"
       "collection_get (users c) v = None"
    using that by (cases v) auto
  have 2: "resolveUserID v = JNull"
    if "\<not> instanceof v User_class" "\<not> instanceof v GuildMember_class"
       "\<not> instanceof v Message_class" "\<not> instanceof v Guild_class"
       "\<not> (is_string v \<and> truthy v)"
    using that by (cases v) auto
  have 3: "resolveGuild c v = JNull"
    if "\<not> instanceof v Guild_class" "collection_get (guilds c) v = None"
    using that by (cases v) auto
  have 4: "resolveGuildMember c g u = JNull"
    if "\<not> instanceof u GuildMember_class"
       "\<forall>g' u'. resolveGuild c g = JGuild g' \<and> resolveUser c u = JUser u' \<longrightarrow>
          members g' (user_id u') = None"
    using that by (cases u) (auto simp: collection_get_def split: val.splits option.splits)
  have 5: "resolveChannel c v = JNull"
    if "\<not> instanceof v Channel_class" "\<not> instanceof v Message_class"
       "\<forall>g'. v = JGuild g' \<longrightarrow> guild_channels g' (guild_id g') = None"
    using that by (cases v) (auto simp: collection_get_def)
  have 6: "resolvePermission flags v \<noteq> Inr JNull"
    by (cases v; cases "flags (case v of JStr x \<Rightarrow> x | _ \<Rightarrow> [])")
      (auto simp: resolvePermission_def Let_def)
  have 7: "resolvePermission flags v = Inl NOT_A_PERMISSION"
    if "\<not> is_string v" "\<not> is_number v \<or> less_than_one v"
    using that by (cases v) (auto simp: resolvePermission_def)
  have 8: "resolvePermission flags (JStr s) = Inl NOT_A_PERMISSION"
    if "\<not> is_number (flags s) \<or> less_than_one (flags s)"
    using that by (auto simp: resolvePermission_def)
  have 9: "resolvePermission flags v = Inr v" if "is_number v" "\<not> less_than_one v"
    using that by (cases v) (auto simp: resolvePermission_def)
  have 10: "resolvePermission flags (JStr s) = Inr (flags s)"
    if "is_number (flags s)" "\<not> less_than_one (flags s)"
    using that by (auto simp: resolvePermission_def)
  have 11: "resolvePermission flags JNaN = Inr JNaN"
    by (simp add: resolvePermission_def)
  show ?thesis using 1 2 3 4 5 6 7 8 9 10 11 by blast
qed

theorem resolvers_on_unresolvable_witness:
  "resolveUser sample_client (JNum 0) = JNull \<and>
   resolveUserID (JNum 0) = JNull \<and>
   resolveGuild sample_client (JNum 0) = JNull \<and>
   resolveGuildMember sample_client (JGuild home) (JNum 0) = JNull \<and>
   resolveChannel sample_client (JNum 0) = JNull \<and>
   resolvePermission sample_flags (JNum 0) = Inl NOT_A_PERMISSION \<and>
   resolvePermission sample_flags (JStr ''FLY'') = Inl NOT_A_PERMISSION \<and>
   users sample_client ''99'' = None \<and>
   resolveUser sample_client (JStr ''99'') = JNull \<and>
   resolveGuild sample_client (JStr ''99'') = JNull \<and>
   resolveGuildMember sample_client (JGuild home) (JStr ''99'') = JNull \<and>
   resolvePermission sample_flags (JNum 8) = Inr (JNum 8) \<and>
   resolvePermission sample_flags (JStr ''KICK_MEMBERS'') = Inr (JNum 2) \<and>
   resolvePermission sample_flags JNaN = Inr JNaN"
  using
    resolvers_on_unresolvable [where v = "JNum 0" and c = sample_client and u = "JNum 0"
      and g = "JGuild home" and flags = sample_flags and s = "''FLY''"]
    resolvers_on_unresolvable [where v = "JStr ''99''" and c = sample_client
      and u = "JStr ''99''" and g = "JGuild home" and flags = sample_flags
      and s = "''KICK_MEMBERS''"]
    resolvers_on_unresolvable [where v = "JNum 8" and c = sample_client and u = "JNum 0"
      and g = "JGuild home" and flags = sample_flags and s = "''KICK_MEMBERS''"]
  by (simp add: sample_client_def collection_get_def sample_flags_def)

text \<open>
  C10. For every string \<open>s\<close>, \<open>resolveChannel(s)\<close> is null whatever the client's channel
  cache holds, a channel with the ID \<open>s\<close> included: the key it looks up is the \<open>id\<close>
  property of the string, \<open>undefined\<close>. An input on which \<open>resolveChannel\<close> is not null
  is a Channel, a Message or a Guild.
\<close>

theorem resolveChannel_string:
  "resolveChannel c (JStr s) = JNull \<and>
   (resolveChannel c v \<noteq> JNull \<longrightarrow>
      instanceof v Channel_class \<or> instanceof v Message_class \<or> instanceof v Guild_class)"
  by (cases v) (auto simp: collection_get_def)

theorem resolveChannel_string_witness:
  "client_channels sample_client ''42'' = Some general \<and>
   resolveChannel sample_client (JStr ''42'') = JNull \<and>
   resolveChannel sample_client (JChannel general) = JChannel general \<and>
   instanceof (JChannel general) Channel_class"
  using resolveChannel_string [of sample_client "''42''" "JChannel general"]
  by (simp add: sample_client_def)

end
